theory Spec2Isabelle
  imports Main
begin

section \<open>JavaScript values, errors and promises\<close>

text \<open>
  The two programs, \<^verbatim>\<open>multer.js\<close> and \<^verbatim>\<open>cloudinary.js\<close>, are Express servers. Their
  route handlers and helpers are embedded as functions over an explicit world (the local
  disk and the console); every \<^verbatim>\<open>throw\<close> and every rejected promise is a value \<open>Inl e\<close>.
\<close>

datatype js_value =
    JUndefined
  | JNull
  | JBool bool
  | JNum int
  | JStr string
  | JArr "js_value list"
  | JObj "(string \<times> js_value) list"

datatype js_error = JsError (err_name: string) (message: string)

text \<open>
  Property read \<^verbatim>\<open>v.k\<close>: a \<^verbatim>\<open>TypeError\<close> on \<^verbatim>\<open>undefined\<close> and \<^verbatim>\<open>null\<close>, the stored value on
  an object that has the key, \<^verbatim>\<open>undefined\<close> otherwise (the only keys read by the programs
  are \<^verbatim>\<open>secure_url\<close> and \<^verbatim>\<open>public_id\<close>, which no primitive or array defines).
\<close>

definition cannot_read :: "string \<Rightarrow> string \<Rightarrow> string" where
  "cannot_read what k =
     ''Cannot read properties of '' @ what @ '' (reading '' @ [CHR 0x27] @ k @ [CHR 0x27] @ '')''"

fun js_get :: "js_value \<Rightarrow> string \<Rightarrow> js_error + js_value" where
  "js_get JUndefined k = Inl (JsError ''TypeError'' (cannot_read ''undefined'' k))"
| "js_get JNull k = Inl (JsError ''TypeError'' (cannot_read ''null'' k))"
| "js_get (JObj kvs) k = Inr (case map_of kvs k of None \<Rightarrow> JUndefined | Some v \<Rightarrow> v)"
| "js_get _ k = Inr JUndefined"

text \<open>Every string that occurs as a value anywhere inside a JavaScript value.\<close>

fun js_strings :: "js_value \<Rightarrow> string set" where
  "js_strings (JStr s) = {s}"
| "js_strings (JArr xs) = (\<Union>x \<in> set xs. js_strings x)"
| "js_strings (JObj kvs) = (\<Union>kv \<in> set kvs. js_strings (snd kv))"
| "js_strings _ = {}"

text \<open>JavaScript truthiness of the values the handlers test (\<^verbatim>\<open>!username\<close>, \<^verbatim>\<open>a || b\<close>).\<close>

fun truthy :: "js_value \<Rightarrow> bool" where
  "truthy JUndefined = False"
| "truthy JNull = False"
| "truthy (JBool b) = b"
| "truthy (JNum n) = (n \<noteq> 0)"
| "truthy (JStr s) = (s \<noteq> [])"
| "truthy _ = True"

subsection \<open>The world: local disk and console\<close>

datatype console_entry = ConsoleLog string | ConsoleError string string

text \<open>
  \<open>files\<close> are the paths that exist on the local disk; \<open>undeletable\<close> are the paths whose
  removal the operating system refuses (a permission error); \<open>unlink_calls\<close> records every
  call of \<^verbatim>\<open>fs.unlink\<close>, in order, so that delete attempts can be counted; \<open>console\<close> keeps
  the leading text of every \<^verbatim>\<open>console.log\<close> and \<^verbatim>\<open>console.error\<close>.
\<close>

record world =
  files :: "string set"
  undeletable :: "string set"
  unlink_calls :: "string list"
  console :: "console_entry list"

type_synonym 'a io = "world \<Rightarrow> (js_error + 'a) \<times> world"

definition io_return :: "'a \<Rightarrow> 'a io" where
  "io_return v = (\<lambda>w. (Inr v, w))"

definition io_throw :: "js_error \<Rightarrow> 'a io" where
  "io_throw e = (\<lambda>w. (Inl e, w))"

text \<open>\<^verbatim>\<open>const v = await m; f(v)\<close>: a rejection of \<open>m\<close> skips \<open>f\<close>.\<close>

definition io_bind :: "'a io \<Rightarrow> ('a \<Rightarrow> 'b io) \<Rightarrow> 'b io" where
  "io_bind m f = (\<lambda>w. case m w of (Inl e, w1) \<Rightarrow> (Inl e, w1) | (Inr v, w1) \<Rightarrow> f v w1)"

text \<open>\<^verbatim>\<open>try { m } catch (e) { h(e) }\<close>.\<close>

definition io_try :: "'a io \<Rightarrow> (js_error \<Rightarrow> 'a io) \<Rightarrow> 'a io" where
  "io_try m h = (\<lambda>w. case m w of (Inl e, w1) \<Rightarrow> h e w1 | (Inr v, w1) \<Rightarrow> (Inr v, w1))"

definition console_log :: "string \<Rightarrow> unit io" where
  "console_log s = (\<lambda>w. (Inr (), w\<lparr>console := console w @ [ConsoleLog s]\<rparr>))"

definition console_error :: "string \<Rightarrow> string \<Rightarrow> unit io" where
  "console_error s detail = (\<lambda>w. (Inr (), w\<lparr>console := console w @ [ConsoleError s detail]\<rparr>))"

text \<open>
  \<^verbatim>\<open>fs.unlink(p)\<close> from \<^verbatim>\<open>fs/promises\<close>: rejects with \<^verbatim>\<open>ENOENT\<close> when the path does not
  exist and with \<^verbatim>\<open>EPERM\<close> when the system refuses the removal; otherwise the path is gone.
\<close>

definition fs_unlink :: "string \<Rightarrow> unit io" where
  "fs_unlink p = (\<lambda>w.
     let w1 = w\<lparr>unlink_calls := unlink_calls w @ [p]\<rparr> in
     if p \<notin> files w then
       (Inl (JsError ''Error'' (''ENOENT: no such file or directory, unlink '' @ p)), w1)
     else if p \<in> undeletable w then
       (Inl (JsError ''Error'' (''EPERM: operation not permitted, unlink '' @ p)), w1)
     else (Inr (), w1\<lparr>files := files w - {p}\<rparr>))"

text \<open>
  \<^verbatim>\<open>cloudinary.uploader.upload(filePath, options)\<close> is the remote service: a parameter that
  answers with the provider's result or with the provider's error.
\<close>

type_synonym uploader = "string \<Rightarrow> js_value \<Rightarrow> js_error + js_value"

definition cloudinary_upload :: "uploader \<Rightarrow> string \<Rightarrow> js_value \<Rightarrow> js_value io" where
  "cloudinary_upload cld filePath options = (\<lambda>w. (cld filePath options, w))"

section \<open>cloudinary.js: helpers\<close>

text \<open>
  \<^verbatim>\<open>uploadAndCleanup\<close> (cloudinary.js, lines 209 to 224). The \<^verbatim>\<open>catch\<close> block has no
  \<^verbatim>\<open>return\<close> and no \<^verbatim>\<open>throw\<close>, so the promise resolves with \<^verbatim>\<open>undefined\<close> there.
\<close>

definition uploadAndCleanup :: "uploader \<Rightarrow> string \<Rightarrow> js_value \<Rightarrow> js_value io" where
  "uploadAndCleanup cld filePath options =
     io_try
       (io_bind (cloudinary_upload cld filePath options) (\<lambda>result.
        io_bind (fs_unlink filePath) (\<lambda>_.
        io_bind (console_log (''uploaded and cleaned up '' @ filePath)) (\<lambda>_.
        io_return result))))
       (\<lambda>error.
        io_bind
          (io_try
            (io_bind (fs_unlink filePath) (\<lambda>_. console_log ''cleaned up upload failed''))
            (\<lambda>unlinkError.
               console_error ''Error during cleanup after upload failure:'' (message unlinkError)))
          (\<lambda>_. io_return JUndefined))"

text \<open>\<^verbatim>\<open>deleteLocalFile\<close> (cloudinary.js, lines 225 to 234).\<close>

definition deleteLocalFile :: "string \<Rightarrow> bool io" where
  "deleteLocalFile filePath =
     io_try
       (io_bind (fs_unlink filePath) (\<lambda>_.
        io_bind (console_log (''Deleted local file: '' @ filePath)) (\<lambda>_.
        io_return True)))
       (\<lambda>error.
        io_bind (console_error (''Error deleting file: '' @ filePath) (message error)) (\<lambda>_.
        io_return False))"

section \<open>Requests and responses\<close>

text \<open>
  The file object that multer hands to \<^verbatim>\<open>fileFilter\<close> and to the storage callbacks
  (\<open>file_part\<close>), and the one it leaves in \<^verbatim>\<open>req.file\<close> after disk storage
  (\<open>multer_file\<close>).
\<close>

record file_part =
  fieldname :: string
  originalname :: string
  mimetype :: string

record multer_file = file_part +
  destination :: string
  filename :: string
  path :: string
  size_f :: nat

record request =
  req_file :: "multer_file option"
  req_body :: "(string \<times> string) list"

text \<open>\<^verbatim>\<open>res.status(s).json(b)\<close>: the status and the object handed to \<^verbatim>\<open>json\<close>.\<close>

record response =
  status :: nat
  json :: js_value

definition res_status_json :: "nat \<Rightarrow> js_value \<Rightarrow> response io" where
  "res_status_json s b = io_return \<lparr>status = s, json = b\<rparr>"

text \<open>A text field of \<^verbatim>\<open>req.body\<close>: the string that was sent, or \<^verbatim>\<open>undefined\<close>.\<close>

definition body_field :: "request \<Rightarrow> string \<Rightarrow> js_value" where
  "body_field req k = (case map_of (req_body req) k of None \<Rightarrow> JUndefined | Some s \<Rightarrow> JStr s)"

text \<open>\<^verbatim>\<open>if (req.file?.path) await deleteLocalFile(req.file.path)\<close>, in both \<^verbatim>\<open>catch\<close> blocks.\<close>

definition delete_if_staged :: "request \<Rightarrow> unit io" where
  "delete_if_staged req =
     (case req_file req of
        None \<Rightarrow> io_return ()
      | Some f \<Rightarrow>
          if path f \<noteq> [] then io_bind (deleteLocalFile (path f)) (\<lambda>_. io_return ())
          else io_return ())"

section \<open>cloudinary.js: routes\<close>

definition image_options :: js_value where
  "image_options =
     JObj [(''folder'', JStr ''user-uploads''),
           (''transformation'',
              JArr [JObj [(''width'', JNum 800), (''height'', JNum 800), (''crop'', JStr ''limit'')],
                    JObj [(''quality'', JStr ''auto'')],
                    JObj [(''fetch_format'', JStr ''auto'')]])]"

text \<open>\<^verbatim>\<open>app.post('/api/upload/image', ...)\<close> (cloudinary.js, lines 236 to 271).\<close>

definition upload_image_handler :: "uploader \<Rightarrow> request \<Rightarrow> response io" where
  "upload_image_handler cld req =
     io_try
       (case req_file req of
          None \<Rightarrow> res_status_json 400 (JObj [(''error'', JStr ''No file uploaded'')])
        | Some f \<Rightarrow>
            io_bind (uploadAndCleanup cld (path f) image_options) (\<lambda>result.
            res_status_json 200
              (JObj [(''message'', JStr ''Image uploaded successfully''), (''data'', result)])))
       (\<lambda>error.
          io_bind (delete_if_staged req) (\<lambda>_.
          res_status_json 500
            (JObj [(''error'', JStr ''Server error''), (''details'', JStr (message error))])))"

text \<open>
  Template literals and \<^verbatim>\<open>+\<close> on a number and a string print the number in decimal. The
  numbers printed here are \<^verbatim>\<open>Date.now()\<close> and \<^verbatim>\<open>Math.round(Math.random() * 1E9)\<close>:
  non-negative integers far below \<^verbatim>\<open>1e21\<close>, where JavaScript switches to exponents.
\<close>

definition digit_char :: "nat \<Rightarrow> char" where
  "digit_char d = ''0123456789'' ! d"

fun string_of_nat :: "nat \<Rightarrow> string" where
  "string_of_nat n =
     (if n < 10 then [digit_char n]
      else string_of_nat (n div 10) @ [digit_char (n mod 10)])"

declare string_of_nat.simps [simp del]

definition profile_options :: "nat \<Rightarrow> js_value" where
  "profile_options now =
     JObj [(''folder'', JStr ''user-profiles''),
           (''public_id'', JStr (''profile_'' @ string_of_nat now)),
           (''transformation'',
              JArr [JObj [(''width'', JNum 400), (''height'', JNum 400), (''crop'', JStr ''fill''),
                          (''gravity'', JStr ''face'')],
                    JObj [(''quality'', JStr ''auto'')],
                    JObj [(''fetch_format'', JStr ''auto'')]]),
           (''overwrite'', JBool True)]"

definition io_of :: "js_error + 'a \<Rightarrow> 'a io" where
  "io_of r = (\<lambda>w. (r, w))"

text \<open>
  \<^verbatim>\<open>app.post('/api/upload/profile', ...)\<close> (cloudinary.js, lines 273 to 321); \<open>now\<close> is the
  value of \<^verbatim>\<open>Date.now()\<close> in the \<^verbatim>\<open>public_id\<close>. The object literal of the response reads
  \<^verbatim>\<open>result.secure_url\<close> first, which throws when \<^verbatim>\<open>result\<close> is \<^verbatim>\<open>undefined\<close>.
\<close>

definition upload_profile_handler :: "uploader \<Rightarrow> nat \<Rightarrow> request \<Rightarrow> response io" where
  "upload_profile_handler cld now req =
     io_try
       (case req_file req of
          None \<Rightarrow> res_status_json 400 (JObj [(''error'', JStr ''no profile image uploaded'')])
        | Some f \<Rightarrow>
            (let username = body_field req ''username''; userId = body_field req ''userId'' in
             io_bind (if \<not> truthy username \<or> \<not> truthy userId
                      then console_log ''required fields are missing'' else io_return ()) (\<lambda>_.
             io_bind (console_log ''profile image file'') (\<lambda>_.
             io_bind (console_log (''profile image file path '' @ path f)) (\<lambda>_.
             io_bind (uploadAndCleanup cld (path f) (profile_options now)) (\<lambda>result.
             io_bind (io_of (js_get result ''secure_url'')) (\<lambda>url.
             io_bind (io_of (js_get result ''public_id'')) (\<lambda>publicId.
             res_status_json 200
               (JObj [(''message'', JStr ''Profile image uploaded successfully''),
                      (''user'', JObj [(''username'', username), (''userId'', userId),
                                       (''avatar'', JObj [(''url'', url), (''publicId'', publicId)])]),
                      (''data'', result)])))))))))
       (\<lambda>error.
          io_bind (delete_if_staged req) (\<lambda>_.
          res_status_json 500
            (JObj [(''error'', JStr ''Server error''),
                   (''details'', JStr (if message error \<noteq> [] then message error
                                       else ''failed to upload profile image''))])))"

text \<open>
  The world of the profile route when it calls the helper: the console lines of the route
  have been written, the disk is untouched.
\<close>

definition profile_logged :: "request \<Rightarrow> multer_file \<Rightarrow> world \<Rightarrow> world" where
  "profile_logged req f w =
     w\<lparr>console := console w @
         (if \<not> truthy (body_field req ''username'') \<or> \<not> truthy (body_field req ''userId'')
          then [ConsoleLog ''required fields are missing''] else []) @
         [ConsoleLog ''profile image file'', ConsoleLog (''profile image file path '' @ path f)]\<rparr>"

section \<open>multer.js: the single-file route\<close>

text \<open>
  \<^verbatim>\<open>(req.file.size / 1024).toFixed(2)\<close>: the division by a power of two is exact, and
  \<^verbatim>\<open>toFixed(2)\<close> takes the nearest multiple of a hundredth, the larger one on a tie; that
  is \<open>(size * 100 + 512) div 1024\<close> hundredths.
\<close>

definition kb_toFixed2 :: "nat \<Rightarrow> string" where
  "kb_toFixed2 sz =
     (let h = (sz * 100 + 512) div 1024 in
      string_of_nat (h div 100) @ ''.'' @ [digit_char (h mod 100 div 10), digit_char (h mod 10)])"

text \<open>
  \<^verbatim>\<open>app.post('/upload-single', ...)\<close> (multer.js, lines 61 to 79). \<^verbatim>\<open>res.json\<close> without
  \<^verbatim>\<open>res.status\<close> answers with status 200.
\<close>

definition multer_upload_single_handler :: "request \<Rightarrow> response io" where
  "multer_upload_single_handler req =
     (case req_file req of
        None \<Rightarrow> res_status_json 400 (JObj [(''message'', JStr ''No file uploaded'')])
      | Some f \<Rightarrow>
          io_bind (console_log ''uploaded file'') (\<lambda>_.
          io_bind (console_log ''other form data'') (\<lambda>_.
          res_status_json 200
            (JObj [(''success'', JBool True),
                   (''message'', JStr ''File uploaded successfully''),
                   (''file'', JObj [(''originalName'', JStr (originalname f)),
                                    (''savedAs'', JStr (filename f)),
                                    (''size'', JStr (kb_toFixed2 (size_f f) @ '' KB'')),
                                    (''path'', JStr (path f))]),
                   (''otherData'', JObj (map (\<lambda>kv. (fst kv, JStr (snd kv))) (req_body req)))]))))"

section \<open>Strings: paths, lower case, regular expressions\<close>

text \<open>
  \<^verbatim>\<open>path.extname\<close> and \<^verbatim>\<open>path.basename\<close> are Node's, in their POSIX form. Both work on the
  last component of the path: trailing slashes are skipped and the component starts after
  the last slash before them.
\<close>

definition is_slash :: "char \<Rightarrow> bool" where
  "is_slash c = (c = CHR ''/'')"

definition trailing_slashes :: "string \<Rightarrow> string" where
  "trailing_slashes p = takeWhile is_slash (rev p)"

definition last_component :: "string \<Rightarrow> string" where
  "last_component p = rev (takeWhile (\<lambda>c. \<not> is_slash c) (dropWhile is_slash (rev p)))"

definition ends_with :: "string \<Rightarrow> string \<Rightarrow> bool" where
  "ends_with s suffix = (length suffix \<le> length s \<and> drop (length s - length suffix) s = suffix)"

text \<open>
  \<^verbatim>\<open>path.extname(p)\<close>: from the last dot of the last component to its end; empty when there
  is no dot, when the last dot is the first character of the component, and for the
  component \<^verbatim>\<open>..\<close>.
\<close>

definition path_extname :: "string \<Rightarrow> string" where
  "path_extname p =
     (let comp = last_component p;
          after_dot = takeWhile (\<lambda>c. c \<noteq> CHR ''.'') (rev comp);
          startDot = length comp - length after_dot - 1
      in if CHR ''.'' \<notin> set comp then []
         else if startDot = 0 \<or> comp = ''..'' then []
         else drop startDot comp)"

text \<open>
  \<^verbatim>\<open>path.basename(p, suffix)\<close>: the last component, without \<open>suffix\<close> when the component
  ends with it and is longer. When the component is used up while it still matches the
  end of a longer \<open>suffix\<close>, Node returns the rest of the path from the component on,
  trailing slashes included.
\<close>

definition path_basename :: "string \<Rightarrow> string \<Rightarrow> string" where
  "path_basename p suffix =
     (let comp = last_component p in
      if suffix \<noteq> [] \<and> length suffix \<le> length p then
        if suffix = p then []
        else if length comp < length suffix \<and> ends_with suffix comp
          then comp @ trailing_slashes p
        else if length suffix < length comp \<and> ends_with comp suffix
          then take (length comp - length suffix) comp
        else comp
      else comp)"

text \<open>
  \<^verbatim>\<open>String.prototype.toLowerCase\<close> on ASCII text: the letters A to Z are mapped, every other
  character is left as it is.
\<close>

definition lower_char :: "char \<Rightarrow> char" where
  "lower_char c =
     (case map_of (zip ''ABCDEFGHIJKLMNOPQRSTUVWXYZ'' ''abcdefghijklmnopqrstuvwxyz'') c of
        None \<Rightarrow> c
      | Some l \<Rightarrow> l)"

definition toLowerCase :: "string \<Rightarrow> string" where
  "toLowerCase s = map lower_char s"

text \<open>
  \<^verbatim>\<open>/a|b|c/.test(s)\<close> for a regular expression that is an alternation of literal words
  without anchors: true when some word occurs somewhere in \<open>s\<close>.
\<close>

definition starts_with :: "string \<Rightarrow> string \<Rightarrow> bool" where
  "starts_with s a = (take (length a) s = a)"

fun regex_test :: "string list \<Rightarrow> string \<Rightarrow> bool" where
  "regex_test alts [] = list_ex (starts_with []) alts"
| "regex_test alts (c # cs) = (list_ex (starts_with (c # cs)) alts \<or> regex_test alts cs)"

section \<open>cloudinary.js: file filters and staged names\<close>

text \<open>The callback \<^verbatim>\<open>cb(new Error(m))\<close> is \<open>Inl\<close>, \<^verbatim>\<open>cb(null, b)\<close> is \<open>Inr b\<close>.\<close>

definition new_Error :: "string \<Rightarrow> js_error" where
  "new_Error m = JsError ''Error'' m"

text \<open>\<^verbatim>\<open>fileFilter\<close> of \<^verbatim>\<open>upload\<close> (cloudinary.js, lines 165 to 174).\<close>

definition upload_fileFilter :: "file_part \<Rightarrow> js_error + bool" where
  "upload_fileFilter f =
     (let filetypes = [''jpeg'', ''jpg'', ''png'', ''gif''];
          extname_ok = regex_test filetypes (toLowerCase (path_extname (originalname f)));
          mimetype_ok = regex_test filetypes (mimetype f)
      in if mimetype_ok \<and> extname_ok then Inr True
         else Inl (new_Error ''Only images are allowed''))"

text \<open>\<^verbatim>\<open>fileFilter\<close> of \<^verbatim>\<open>profileUpload\<close> (cloudinary.js, lines 180 to 190).\<close>

definition profileUpload_fileFilter :: "file_part \<Rightarrow> js_error + bool" where
  "profileUpload_fileFilter f =
     (let filetypes = [''jpeg'', ''jpg'', ''png'', ''gif''];
          extname_ok = regex_test filetypes (toLowerCase (path_extname (originalname f)));
          mimetype_ok = regex_test filetypes (mimetype f)
      in if mimetype_ok \<and> extname_ok then Inr True
         else Inl (new_Error ''Only images are allowed''))"

text \<open>\<^verbatim>\<open>fileFilter\<close> of \<^verbatim>\<open>documentUpload\<close> (cloudinary.js, lines 197 to 206).\<close>

definition documentUpload_fileFilter :: "file_part \<Rightarrow> js_error + bool" where
  "documentUpload_fileFilter f =
     (let filetypes = [''pdf'', ''doc'', ''docx'', ''txt''];
          extname_ok = regex_test filetypes (toLowerCase (path_extname (originalname f)));
          mimetype_ok = regex_test filetypes (mimetype f)
      in if mimetype_ok \<and> extname_ok then Inr True
         else Inl (new_Error ''Only document files are allowed''))"

text \<open>
  \<^verbatim>\<open>filename\<close> of \<^verbatim>\<open>storage\<close> (cloudinary.js, lines 117 to 122); \<^verbatim>\<open>profileStorage\<close> and
  \<^verbatim>\<open>documentStorage\<close> repeat it word for word. \<open>now\<close> is the value of \<^verbatim>\<open>Date.now()\<close> and
  \<open>rnd\<close> the value of \<^verbatim>\<open>Math.round(Math.random() * 1E9)\<close>, both read from the environment.
\<close>

definition storage_filename :: "nat \<Rightarrow> nat \<Rightarrow> file_part \<Rightarrow> string" where
  "storage_filename now rnd f =
     (let uniqueSuffix = string_of_nat now @ ''-'' @ string_of_nat rnd;
          ext = path_extname (originalname f);
          basename = path_basename (originalname f) ext
      in basename @ ''-'' @ uniqueSuffix @ ext)"

section \<open>multer.js: file filter and staged name\<close>

text \<open>
  \<^verbatim>\<open>fileFilter\<close> (multer.js, lines 38 to 50). Its \<^verbatim>\<open>console.log\<close> of the file that arrived
  is not part of the decision and is left out, so that the filter is a function of the file.
\<close>

definition multer_fileFilter :: "file_part \<Rightarrow> js_error + bool" where
  "multer_fileFilter f =
     (let allowedTypes = [''image/jpeg'', ''image/jpg'', ''image/png'', ''image/gif''] in
      if mimetype f \<in> set allowedTypes then Inr True
      else Inl (new_Error ''Invalid file type. Only JPEG, PNG and GIF are allowed.''))"

text \<open>
  \<^verbatim>\<open>filename\<close> of \<^verbatim>\<open>storage\<close> (multer.js, lines 26 to 34), without its
  \<^verbatim>\<open>console.log\<close> of the name.
\<close>

definition multer_storage_filename :: "nat \<Rightarrow> file_part \<Rightarrow> string" where
  "multer_storage_filename now f =
     (let ext = path_extname (originalname f);
          filenamewithoutExt = path_basename (originalname f) ext;
          uniquename = filenamewithoutExt @ ''-'' @ string_of_nat now @ ext
      in uniquename)"

section \<open>The multipart middleware\<close>

text \<open>
  The options object given to \<^verbatim>\<open>multer(...)\<close>: the two callbacks of \<^verbatim>\<open>multer.diskStorage\<close>
  (the destination is a constant directory in every storage of the programs),
  \<^verbatim>\<open>limits.fileSize\<close> and \<^verbatim>\<open>fileFilter\<close>.
\<close>

record multer_options =
  storage_destination :: string
  storage_filename_cb :: "nat \<Rightarrow> nat \<Rightarrow> file_part \<Rightarrow> string"
  limits_fileSize :: nat
  fileFilter :: "file_part \<Rightarrow> js_error + bool"

text \<open>
  \<^verbatim>\<open>upload\<close> and \<^verbatim>\<open>profileUpload\<close> of cloudinary.js, \<^verbatim>\<open>upload\<close> of multer.js. The
  destination callback of multer.js answers \<^verbatim>\<open>./uploads\<close>, after creating that directory when
  it is missing; joined with a file name this is the path \<^verbatim>\<open>uploads/name\<close>.
\<close>

definition upload :: multer_options where
  "upload =
     \<lparr>storage_destination = ''uploads/'', storage_filename_cb = storage_filename,
      limits_fileSize = 5 * 1024 * 1024, fileFilter = upload_fileFilter\<rparr>"

definition profileUpload :: multer_options where
  "profileUpload =
     \<lparr>storage_destination = ''uploads/profiles/'', storage_filename_cb = storage_filename,
      limits_fileSize = 5 * 1024 * 1024, fileFilter = profileUpload_fileFilter\<rparr>"

definition multer_upload :: multer_options where
  "multer_upload =
     \<lparr>storage_destination = ''uploads/'',
      storage_filename_cb = (\<lambda>now rnd. multer_storage_filename now),
      limits_fileSize = 1024 * 1024 * 5, fileFilter = multer_fileFilter\<rparr>"

text \<open>
  Modelled from the spec: the distinct too-large reason. It is raised by the multer package;
  the guide in the repository names it \<^verbatim>\<open>LIMIT_FILE_SIZE\<close>, "File too large".
\<close>

definition LIMIT_FILE_SIZE :: js_error where
  "LIMIT_FILE_SIZE = JsError ''MulterError'' ''File too large''"

text \<open>
  Modelled from the spec: the middleware \<^verbatim>\<open>multer(options).single(field)\<close> is the multer
  package, whose code is not among the sources; the programs only configure it. Following
  the pipeline of the specification, the validator runs first (the type check of
  \<^verbatim>\<open>fileFilter\<close>, then the size ceiling: "a file exactly at the policy size ceiling is
  accepted; one byte over is rejected", with a distinct too-large reason), and only an accepted file is
  staged: written under the destination with the name the storage callback generates. The
  argument is the file part that arrived under the declared field name, with the number of
  bytes of its stream, or \<open>None\<close> when no file arrived under that name.
\<close>

definition multer_single ::
  "multer_options \<Rightarrow> nat \<Rightarrow> nat \<Rightarrow> (file_part \<times> nat) option \<Rightarrow> (string \<times> string) list \<Rightarrow> request io"
where
  "multer_single opts now rnd incoming text_fields =
     (case incoming of
        None \<Rightarrow> io_return \<lparr>req_file = None, req_body = text_fields\<rparr>
      | Some (part, bytes) \<Rightarrow>
          (case fileFilter opts part of
             Inl err \<Rightarrow> io_throw err
           | Inr False \<Rightarrow> io_return \<lparr>req_file = None, req_body = text_fields\<rparr>
           | Inr True \<Rightarrow>
               if limits_fileSize opts < bytes then io_throw LIMIT_FILE_SIZE
               else
                 (let name = storage_filename_cb opts now rnd part;
                      staged = \<lparr>fieldname = fieldname part, originalname = originalname part,
                                mimetype = mimetype part,
                                destination = storage_destination opts, filename = name,
                                path = storage_destination opts @ name, size_f = bytes\<rparr>
                  in (\<lambda>w. (Inr \<lparr>req_file = Some staged, req_body = text_fields\<rparr>,
                            w\<lparr>files := insert (path staged) (files w)\<rparr>)))))"

section \<open>Example inputs\<close>

text \<open>
  A staged upload of \<^verbatim>\<open>cat.png\<close>, a disk that holds it, a disk that refuses to remove it, a
  provider that answers with a descriptor and one that cannot be reached, and a request
  that arrived without a file.
\<close>

definition cat_file :: multer_file where
  "cat_file =
     \<lparr>fieldname = ''image'', originalname = ''cat.png'', mimetype = ''image/png'',
      destination = ''uploads/'', filename = ''cat-17-42.png'', path = ''uploads/cat-17-42.png'',
      size_f = 2048\<rparr>"

definition cat_request :: request where
  "cat_request = \<lparr>req_file = Some cat_file, req_body = []\<rparr>"

definition no_file_request :: request where
  "no_file_request = \<lparr>req_file = None, req_body = [(''username'', ''ray'')]\<rparr>"

definition empty_disk :: world where
  "empty_disk = \<lparr>files = {}, undeletable = {}, unlink_calls = [], console = []\<rparr>"

definition disk_with_cat :: world where
  "disk_with_cat =
     \<lparr>files = {''uploads/cat-17-42.png''}, undeletable = {}, unlink_calls = [], console = []\<rparr>"

definition locked_disk :: world where
  "locked_disk =
     \<lparr>files = {''uploads/cat-17-42.png''}, undeletable = {''uploads/cat-17-42.png''},
      unlink_calls = [], console = []\<rparr>"

definition cat_descriptor :: js_value where
  "cat_descriptor =
     JObj [(''secure_url'', JStr ''https://res.cloudinary.com/demo/cat.png''),
           (''public_id'', JStr ''user-uploads/cat'')]"

definition provider_ok :: uploader where
  "provider_ok = (\<lambda>p opts. Inr cat_descriptor)"

definition provider_down :: uploader where
  "provider_down = (\<lambda>p opts. Inl (new_Error ''connect ETIMEDOUT''))"

section \<open>Facts about the helpers\<close>

lemmas fixture_defs = cat_file_def cat_request_def no_file_request_def empty_disk_def
  disk_with_cat_def locked_disk_def cat_descriptor_def provider_ok_def provider_down_def

lemmas io_defs = io_return_def io_throw_def io_bind_def io_try_def io_of_def console_log_def
  console_error_def cloudinary_upload_def res_status_json_def

lemma cannot_read_nonempty [simp]: "cannot_read what k \<noteq> []"
  by (simp add: cannot_read_def)

lemma fs_unlink_ok:
  "p \<in> files w \<Longrightarrow> p \<notin> undeletable w \<Longrightarrow>
   fs_unlink p w = (Inr (), w\<lparr>unlink_calls := unlink_calls w @ [p], files := files w - {p}\<rparr>)"
  by (simp add: fs_unlink_def Let_def)

lemma fs_unlink_fails:
  "p \<notin> files w \<or> p \<in> undeletable w \<Longrightarrow>
   fs_unlink p w =
     (Inl (JsError ''Error''
             ((if p \<notin> files w then ''ENOENT: no such file or directory, unlink ''
               else ''EPERM: operation not permitted, unlink '') @ p)),
      w\<lparr>unlink_calls := unlink_calls w @ [p]\<rparr>)"
  by (auto simp add: fs_unlink_def Let_def)

lemma uploadAndCleanup_ok:
  "cld p opts = Inr result \<Longrightarrow> p \<in> files w \<Longrightarrow> p \<notin> undeletable w \<Longrightarrow>
   uploadAndCleanup cld p opts w =
     (Inr result, w\<lparr>unlink_calls := unlink_calls w @ [p], files := files w - {p},
                     console := console w @ [ConsoleLog (''uploaded and cleaned up '' @ p)]\<rparr>)"
  by (simp add: uploadAndCleanup_def io_defs fs_unlink_ok)

lemma uploadAndCleanup_upload_failed:
  "cld p opts = Inl e \<Longrightarrow> p \<in> files w \<Longrightarrow> p \<notin> undeletable w \<Longrightarrow>
   uploadAndCleanup cld p opts w =
     (Inr JUndefined, w\<lparr>unlink_calls := unlink_calls w @ [p], files := files w - {p},
                     console := console w @ [ConsoleLog ''cleaned up upload failed'']\<rparr>)"
  by (simp add: uploadAndCleanup_def io_defs fs_unlink_ok)

lemma uploadAndCleanup_unlink_failed:
  assumes "cld p opts = Inr result" and "p \<notin> files w \<or> p \<in> undeletable w"
  shows "uploadAndCleanup cld p opts w =
     (Inr JUndefined,
      w\<lparr>unlink_calls := unlink_calls w @ [p, p],
        console := console w @
          [ConsoleError ''Error during cleanup after upload failure:''
             ((if p \<notin> files w then ''ENOENT: no such file or directory, unlink ''
               else ''EPERM: operation not permitted, unlink '') @ p)]\<rparr>)"
proof -
  let ?w1 = "w\<lparr>unlink_calls := unlink_calls w @ [p]\<rparr>"
  from assms(2) have "p \<notin> files ?w1 \<or> p \<in> undeletable ?w1" by simp
  from fs_unlink_fails [OF assms(2)] fs_unlink_fails [OF this] show ?thesis
    by (simp add: uploadAndCleanup_def io_defs assms(1))
qed

lemma uploadAndCleanup_both_failed:
  assumes "cld p opts = Inl e" and "p \<notin> files w \<or> p \<in> undeletable w"
  shows "uploadAndCleanup cld p opts w =
     (Inr JUndefined,
      w\<lparr>unlink_calls := unlink_calls w @ [p],
        console := console w @
          [ConsoleError ''Error during cleanup after upload failure:''
             ((if p \<notin> files w then ''ENOENT: no such file or directory, unlink ''
               else ''EPERM: operation not permitted, unlink '') @ p)]\<rparr>)"
  using fs_unlink_fails [OF assms(2)]
  by (simp add: uploadAndCleanup_def io_defs assms(1))

lemma deleteLocalFile_ok:
  "p \<in> files w \<Longrightarrow> p \<notin> undeletable w \<Longrightarrow>
   deleteLocalFile p w =
     (Inr True, w\<lparr>unlink_calls := unlink_calls w @ [p], files := files w - {p},
                   console := console w @ [ConsoleLog (''Deleted local file: '' @ p)]\<rparr>)"
  by (simp add: deleteLocalFile_def io_defs fs_unlink_ok)

lemma deleteLocalFile_fails:
  "p \<notin> files w \<or> p \<in> undeletable w \<Longrightarrow>
   deleteLocalFile p w =
     (Inr False,
      w\<lparr>unlink_calls := unlink_calls w @ [p],
        console := console w @
          [ConsoleError (''Error deleting file: '' @ p)
             ((if p \<notin> files w then ''ENOENT: no such file or directory, unlink ''
               else ''EPERM: operation not permitted, unlink '') @ p)]\<rparr>)"
  using fs_unlink_fails [of p w] by (simp add: deleteLocalFile_def io_defs)

text \<open>The image route answers from the value of the helper alone.\<close>

lemma upload_image_handler_staged:
  "req_file req = Some f \<Longrightarrow> uploadAndCleanup cld (path f) image_options w = (Inr result, w1) \<Longrightarrow>
   upload_image_handler cld req w =
     (Inr \<lparr>status = 200,
           json = JObj [(''message'', JStr ''Image uploaded successfully''), (''data'', result)]\<rparr>, w1)"
  by (simp add: upload_image_handler_def io_defs)

lemma upload_profile_handler_object:
  assumes "req_file req = Some f"
    and "uploadAndCleanup cld (path f) (profile_options now) (profile_logged req f w) = (Inr (JObj kvs), w1)"
  shows "upload_profile_handler cld now req w =
     (Inr \<lparr>status = 200,
           json = JObj [(''message'', JStr ''Profile image uploaded successfully''),
                        (''user'', JObj [(''username'', body_field req ''username''),
                                         (''userId'', body_field req ''userId''),
                                         (''avatar'',
                                            JObj [(''url'', case map_of kvs ''secure_url'' of None \<Rightarrow> JUndefined | Some v \<Rightarrow> v),
                                                  (''publicId'', case map_of kvs ''public_id'' of None \<Rightarrow> JUndefined | Some v \<Rightarrow> v)])]),
                        (''data'', JObj kvs)]\<rparr>, w1)"
proof (cases "\<not> truthy (body_field req ''username'') \<or> \<not> truthy (body_field req ''userId'')")
  case True
  with assms show ?thesis
    by (simp add: upload_profile_handler_def io_defs profile_logged_def Let_def)
next
  case False
  with assms show ?thesis
    by (simp add: upload_profile_handler_def io_defs profile_logged_def Let_def)
qed

lemma upload_profile_handler_undefined:
  assumes "req_file req = Some f" and "path f \<noteq> []"
    and "uploadAndCleanup cld (path f) (profile_options now) (profile_logged req f w) = (Inr JUndefined, w1)"
    and "deleteLocalFile (path f) w1 = (Inr b, w2)"
  shows "upload_profile_handler cld now req w =
     (Inr \<lparr>status = 500,
           json = JObj [(''error'', JStr ''Server error''),
                        (''details'', JStr (cannot_read ''undefined'' ''secure_url''))]\<rparr>, w2)"
proof (cases "\<not> truthy (body_field req ''username'') \<or> \<not> truthy (body_field req ''userId'')")
  case True
  with assms show ?thesis
    by (simp add: upload_profile_handler_def io_defs profile_logged_def Let_def delete_if_staged_def)
next
  case False
  with assms show ?thesis
    by (simp add: upload_profile_handler_def io_defs profile_logged_def Let_def delete_if_staged_def)
qed

lemma profile_logged_simps [simp]:
  "files (profile_logged req f w) = files w"
  "undeletable (profile_logged req f w) = undeletable w"
  "unlink_calls (profile_logged req f w) = unlink_calls w"
  by (simp_all add: profile_logged_def)

lemma uploadAndCleanup_value:
  "fst (uploadAndCleanup cld p opts w) =
     Inr (case cld p opts of
            Inl e \<Rightarrow> JUndefined
          | Inr result \<Rightarrow> (if p \<in> files w \<and> p \<notin> undeletable w then result else JUndefined))"
  by (simp add: uploadAndCleanup_def io_defs fs_unlink_def Let_def split: sum.splits)

lemma deleteLocalFile_total: "\<exists>b w2. deleteLocalFile p w = (Inr b, w2)"
  using deleteLocalFile_ok [of p w] deleteLocalFile_fails [of p w] by blast

lemma delete_if_staged_total: "\<exists>w2. delete_if_staged req w = (Inr (), w2)"
proof (cases "req_file req")
  case None
  then show ?thesis by (simp add: delete_if_staged_def io_defs)
next
  case (Some f)
  obtain b w2 where "deleteLocalFile (path f) w = (Inr b, w2)"
    using deleteLocalFile_total by blast
  with Some show ?thesis by (simp add: delete_if_staged_def io_defs)
qed

lemma uploadAndCleanup_total: "\<exists>w1. uploadAndCleanup cld p opts w =
    (Inr (case cld p opts of Inl e \<Rightarrow> JUndefined
          | Inr result \<Rightarrow> (if p \<in> files w \<and> p \<notin> undeletable w then result else JUndefined)), w1)"
  using uploadAndCleanup_value [of cld p opts w] by (cases "uploadAndCleanup cld p opts w") simp

lemma js_get_Inl: "js_get v k = Inl e \<Longrightarrow> v = JUndefined \<or> v = JNull"
  by (cases v) simp_all

lemma js_get_strings: "js_get v k = Inr x \<Longrightarrow> js_strings x \<subseteq> js_strings v"
proof (cases v)
  case (JObj kvs)
  assume g: "js_get v k = Inr x"
  show ?thesis
  proof (cases "map_of kvs k")
    case None
    with g JObj show ?thesis by simp
  next
    case (Some y)
    then have "(k, y) \<in> set kvs" by (rule map_of_SomeD)
    with g JObj Some show ?thesis by force
  qed
qed auto

text \<open>What the image route answers to a request with a file, for any upload outcome.\<close>

lemma upload_image_handler_answer:
  assumes "req_file req = Some f"
  shows "\<exists>w1. upload_image_handler cld req w =
     (Inr \<lparr>status = 200,
           json = JObj [(''message'', JStr ''Image uploaded successfully''),
                        (''data'', case cld (path f) image_options of Inl e \<Rightarrow> JUndefined
                            | Inr result \<Rightarrow> (if path f \<in> files w \<and> path f \<notin> undeletable w
                                               then result else JUndefined))]\<rparr>, w1)"
proof -
  obtain w1 where "uploadAndCleanup cld (path f) image_options w =
    (Inr (case cld (path f) image_options of Inl e \<Rightarrow> JUndefined
          | Inr result \<Rightarrow> (if path f \<in> files w \<and> path f \<notin> undeletable w then result else JUndefined)), w1)"
    using uploadAndCleanup_total by blast
  from upload_image_handler_staged [OF assms this] show ?thesis by blast
qed

text \<open>The profile route, for any value of the helper.\<close>

lemma upload_profile_handler_cases:
  assumes f: "req_file req = Some f"
    and u: "uploadAndCleanup cld (path f) (profile_options now) (profile_logged req f w) = (Inr v, w1)"
  shows "\<exists>r w2. upload_profile_handler cld now req w = (Inr r, w2) \<and>
     (status r = 500 \<or>
      (status r = 200 \<and> v \<noteq> JUndefined \<and> v \<noteq> JNull \<and>
       js_strings (json r) \<subseteq> {''Profile image uploaded successfully''}
          \<union> js_strings (body_field req ''username'') \<union> js_strings (body_field req ''userId'')
          \<union> js_strings v))"
proof (cases "js_get v ''secure_url''")
  case (Inl e)
  obtain w2 where d: "delete_if_staged req w1 = (Inr (), w2)"
    using delete_if_staged_total by blast
  show ?thesis
  proof (cases "\<not> truthy (body_field req ''username'') \<or> \<not> truthy (body_field req ''userId'')")
    case True
    with f u Inl d show ?thesis
      by (simp add: upload_profile_handler_def io_defs profile_logged_def Let_def)
  next
    case False
    with f u Inl d show ?thesis
      by (simp add: upload_profile_handler_def io_defs profile_logged_def Let_def)
  qed
next
  case (Inr url)
  then have v: "v \<noteq> JUndefined" "v \<noteq> JNull" by auto
  then obtain pid where pid: "js_get v ''public_id'' = Inr pid"
    by (cases v) simp_all
  note s = js_get_strings [OF Inr] js_get_strings [OF pid]
  show ?thesis
  proof (cases "\<not> truthy (body_field req ''username'') \<or> \<not> truthy (body_field req ''userId'')")
    case True
    with f u Inr pid v s show ?thesis
      by (simp add: upload_profile_handler_def io_defs profile_logged_def Let_def) blast
  next
    case False
    with f u Inr pid v s show ?thesis
      by (simp add: upload_profile_handler_def io_defs profile_logged_def Let_def) blast
  qed
qed

lemma multer_upload_single_handler_staged:
  "req_file req = Some f \<Longrightarrow>
   \<exists>b w1. multer_upload_single_handler req w = (Inr \<lparr>status = 200, json = b\<rparr>, w1)"
  by (simp add: multer_upload_single_handler_def io_defs)

subsection \<open>Decimal printing, staged names, regular expressions\<close>

lemma digit_char_not_dash: "d < 10 \<Longrightarrow> digit_char d \<noteq> CHR ''-''"
  by (auto simp: digit_char_def eval_nat_numeral less_Suc_eq)

lemma digit_char_inj: "a < 10 \<Longrightarrow> b < 10 \<Longrightarrow> digit_char a = digit_char b \<Longrightarrow> a = b"
  by (auto simp: digit_char_def eval_nat_numeral less_Suc_eq)

lemma string_of_nat_nonempty: "string_of_nat n \<noteq> []"
  by (subst string_of_nat.simps) simp

lemma string_of_nat_no_dash: "CHR ''-'' \<notin> set (string_of_nat n)"
proof (induction n rule: string_of_nat.induct)
  case (1 n)
  show ?case
  proof (cases "n < 10")
    case True
    then show ?thesis
      using digit_char_not_dash [of n] by (subst string_of_nat.simps) auto
  next
    case False
    then show ?thesis
      using 1 digit_char_not_dash [of "n mod 10"] by (subst string_of_nat.simps) auto
  qed
qed

lemma string_of_nat_inj: "string_of_nat m = string_of_nat n \<Longrightarrow> m = n"
proof (induction m arbitrary: n rule: string_of_nat.induct)
  case (1 m)
  show ?case
  proof (cases "m < 10")
    case m: True
    show ?thesis
    proof (cases "n < 10")
      case True
      with m 1(2) show ?thesis
        by (simp add: string_of_nat.simps [of m] string_of_nat.simps [of n] digit_char_inj)
    next
      case False
      with m 1(2) string_of_nat_nonempty [of "n div 10"] show ?thesis
        by (simp add: string_of_nat.simps [of m] string_of_nat.simps [of n])
    qed
  next
    case m: False
    show ?thesis
    proof (cases "n < 10")
      case True
      with m 1(2) string_of_nat_nonempty [of "m div 10"] show ?thesis
        by (simp add: string_of_nat.simps [of m] string_of_nat.simps [of n])
    next
      case False
      with m 1(2) have eq: "string_of_nat (m div 10) = string_of_nat (n div 10)"
        and d: "digit_char (m mod 10) = digit_char (n mod 10)"
        by (simp_all add: string_of_nat.simps [of m] string_of_nat.simps [of n])
      from 1(1) [OF m eq] have q: "m div 10 = n div 10" .
      from d have r: "m mod 10 = n mod 10"
        by (intro digit_char_inj) simp_all
      have "m = 10 * (m div 10) + m mod 10" by simp
      also have "\<dots> = 10 * (n div 10) + n mod 10" by (simp only: q r)
      also have "\<dots> = n" by simp
      finally show ?thesis .
    qed
  qed
qed

lemma split_at_first:
  "c \<notin> set xs \<Longrightarrow> c \<notin> set ys \<Longrightarrow> xs @ c # us = ys @ c # vs \<Longrightarrow> xs = ys \<and> us = vs"
proof (induction xs arbitrary: ys)
  case Nil
  then show ?case by (cases ys) auto
next
  case (Cons x xs)
  then show ?case by (cases ys) auto
qed

lemma dashed_pair_inj:
  "string_of_nat n1 @ ''-'' @ string_of_nat r1 @ e = string_of_nat n2 @ ''-'' @ string_of_nat r2 @ e
   \<longleftrightarrow> n1 = n2 \<and> r1 = r2"
proof
  assume "string_of_nat n1 @ ''-'' @ string_of_nat r1 @ e = string_of_nat n2 @ ''-'' @ string_of_nat r2 @ e"
  then have "string_of_nat n1 @ CHR ''-'' # (string_of_nat r1 @ e)
      = string_of_nat n2 @ CHR ''-'' # (string_of_nat r2 @ e)"
    by simp
  from split_at_first [OF string_of_nat_no_dash string_of_nat_no_dash this]
  show "n1 = n2 \<and> r1 = r2"
    by (auto dest: string_of_nat_inj)
qed simp

lemma starts_with_iff: "starts_with s a \<longleftrightarrow> (\<exists>v. s = a @ v)"
proof
  assume "starts_with s a"
  then have "s = a @ drop (length a) s"
    by (metis append_take_drop_id starts_with_def)
  then show "\<exists>v. s = a @ v" ..
next
  assume "\<exists>v. s = a @ v"
  then show "starts_with s a" by (auto simp: starts_with_def)
qed

lemma regex_test_iff: "regex_test alts s \<longleftrightarrow> (\<exists>a \<in> set alts. \<exists>u v. s = u @ a @ v)"
proof (induction s)
  case Nil
  show ?case by (auto simp: list_ex_iff starts_with_def)
next
  case (Cons c cs)
  show ?case
  proof
    assume "regex_test alts (c # cs)"
    then consider a v where "a \<in> set alts" "c # cs = a @ v" | "regex_test alts cs"
      by (auto simp: list_ex_iff starts_with_iff)
    then show "\<exists>a \<in> set alts. \<exists>u v. c # cs = u @ a @ v"
    proof cases
      case 1
      then have "c # cs = [] @ a @ v" by simp
      with 1(1) show ?thesis by blast
    next
      case 2
      with Cons obtain a u v where "a \<in> set alts" "cs = u @ a @ v" by blast
      then have "c # cs = (c # u) @ a @ v" by simp
      with \<open>a \<in> set alts\<close> show ?thesis by blast
    qed
  next
    assume "\<exists>a \<in> set alts. \<exists>u v. c # cs = u @ a @ v"
    then obtain a u v where a: "a \<in> set alts" and e: "c # cs = u @ a @ v" by blast
    show "regex_test alts (c # cs)"
    proof (cases u)
      case Nil
      with e have "starts_with (c # cs) a" by (auto simp: starts_with_iff)
      with a show ?thesis by (auto simp: list_ex_iff)
    next
      case (Cons x u')
      with e have "cs = u' @ a @ v" by simp
      with a have "regex_test alts cs" using Cons.IH by blast
      then show ?thesis by simp
    qed
  qed
qed

lemma regex_test_word:
  assumes "a \<in> set alts"
  shows "regex_test alts (u @ a)"
proof -
  have "\<exists>b \<in> set alts. \<exists>u' v. u @ a = u' @ b @ v"
    by (rule bexI [of _ a], rule exI [of _ u], rule exI [of _ "[]"]) (simp_all add: assms)
  then show ?thesis by (simp only: regex_test_iff)
qed

lemma image_words_accepted:
  assumes "ext \<in> {''.jpeg'', ''.jpg'', ''.png'', ''.gif''}"
    and "mime \<in> {''image/jpeg'', ''image/jpg'', ''image/png'', ''image/gif''}"
  shows "regex_test [''jpeg'', ''jpg'', ''png'', ''gif''] ext"
    and "regex_test [''jpeg'', ''jpg'', ''png'', ''gif''] mime"
proof -
  from assms(1) obtain b where "b \<in> set [''jpeg'', ''jpg'', ''png'', ''gif'']" "ext = ''.'' @ b"
    by auto
  then show "regex_test [''jpeg'', ''jpg'', ''png'', ''gif''] ext"
    using regex_test_word by blast
  from assms(2) obtain c where "c \<in> set [''jpeg'', ''jpg'', ''png'', ''gif'']" "mime = ''image/'' @ c"
    by auto
  then show "regex_test [''jpeg'', ''jpg'', ''png'', ''gif''] mime"
    using regex_test_word by blast
qed

lemma image_pattern_unmatched:
  assumes "\<forall>a \<in> {''jpeg'', ''jpg'', ''png'', ''gif''}. \<forall>u v. s \<noteq> u @ a @ v"
  shows "\<not> regex_test [''jpeg'', ''jpg'', ''png'', ''gif''] s"
proof
  assume "regex_test [''jpeg'', ''jpg'', ''png'', ''gif''] s"
  then obtain a u v where "a \<in> set [''jpeg'', ''jpg'', ''png'', ''gif'']" and "s = u @ a @ v"
    unfolding regex_test_iff by blast
  moreover from this(1) have "a \<in> {''jpeg'', ''jpg'', ''png'', ''gif''}" by simp
  ultimately show False using assms by blast
qed

lemmas path_defs = path_extname_def path_basename_def last_component_def trailing_slashes_def
  is_slash_def ends_with_def

text \<open>
  The pattern of cloudinary.js has no anchors, so a word inside a longer extension is
  enough for it.
\<close>

lemma upload_fileFilter_word_inside_extension:
  "upload_fileFilter \<lparr>fieldname = ''image'', originalname = ''shell.phpgif'', mimetype = ''image/gif''\<rparr>
     = Inr True"
  by (simp add: upload_fileFilter_def path_defs toLowerCase_def lower_char_def starts_with_def Let_def)

section \<open>The claims\<close>

text \<open>
  C10. \<^verbatim>\<open>uploadAndCleanup\<close> always resolves and never rejects. It resolves with the
  provider's result only when the remote upload and the local unlink both succeed, and with
  \<^verbatim>\<open>undefined\<close> in every other case: after a failed upload, whatever the provider's error
  was, and after a successful upload followed by a failed unlink. The value it returns
  therefore carries neither the provider's error detail nor the difference between the two
  failures.
\<close>

theorem uploadAndCleanup_always_resolves:
  "fst (uploadAndCleanup cld filePath options w) =
     Inr (case cld filePath options of
            Inl error \<Rightarrow> JUndefined
          | Inr result \<Rightarrow>
              (case fst (fs_unlink filePath w) of Inl unlinkError \<Rightarrow> JUndefined | Inr u \<Rightarrow> result))"
  by (simp add: uploadAndCleanup_def io_defs fs_unlink_def Let_def split: sum.splits)

theorem uploadAndCleanup_always_resolves_witness:
  "fst (uploadAndCleanup provider_down ''uploads/cat-17-42.png'' image_options disk_with_cat)
     = Inr JUndefined
   \<and> fst (uploadAndCleanup provider_ok ''uploads/cat-17-42.png'' image_options locked_disk)
     = Inr JUndefined
   \<and> fst (uploadAndCleanup provider_ok ''uploads/cat-17-42.png'' image_options disk_with_cat)
     = Inr cat_descriptor"
  using
    uploadAndCleanup_always_resolves
      [of provider_down "''uploads/cat-17-42.png''" image_options disk_with_cat]
    uploadAndCleanup_always_resolves
      [of provider_ok "''uploads/cat-17-42.png''" image_options locked_disk]
    uploadAndCleanup_always_resolves
      [of provider_ok "''uploads/cat-17-42.png''" image_options disk_with_cat]
  by (simp add: fs_unlink_def disk_with_cat_def locked_disk_def provider_ok_def provider_down_def)

text \<open>
  C1, where the code departs from it. On a healthy disk, after a failed remote upload, the
  profile route calls \<^verbatim>\<open>fs.unlink\<close> on the staged file twice: once in the \<^verbatim>\<open>catch\<close> block
  of the helper, which removes the file, and once more through \<^verbatim>\<open>deleteLocalFile\<close>, after
  the helper's \<^verbatim>\<open>undefined\<close> made \<^verbatim>\<open>result.secure_url\<close> throw. The file is gone at the end,
  but the delete attempts are two, not one.
\<close>

theorem failed_upload_unlinks_twice_in_profile_route:
  assumes "req_file req = Some f" and "path f \<noteq> []"
    and "path f \<in> files w" and "path f \<notin> undeletable w"
    and "cld (path f) (profile_options now) = Inl e"
  shows "unlink_calls (snd (upload_profile_handler cld now req w)) = unlink_calls w @ [path f, path f]
       \<and> path f \<notin> files (snd (upload_profile_handler cld now req w))"
proof -
  let ?w0 = "profile_logged req f w"
  let ?w1 = "?w0\<lparr>unlink_calls := unlink_calls ?w0 @ [path f], files := files ?w0 - {path f},
                 console := console ?w0 @ [ConsoleLog ''cleaned up upload failed'']\<rparr>"
  have "path f \<in> files ?w0" "path f \<notin> undeletable ?w0"
    using assms(3,4) by simp_all
  note u = uploadAndCleanup_upload_failed
    [of cld "path f" "profile_options now" e ?w0, OF assms(5) this]
  have "path f \<notin> files ?w1 \<or> path f \<in> undeletable ?w1" by simp
  note d = deleteLocalFile_fails [OF this]
  from upload_profile_handler_undefined [OF assms(1,2) u d]
  show ?thesis by simp
qed

theorem failed_upload_unlinks_twice_in_profile_route_witness:
  "unlink_calls (snd (upload_profile_handler provider_down 1700000000000 cat_request disk_with_cat))
     = [''uploads/cat-17-42.png'', ''uploads/cat-17-42.png'']
   \<and> ''uploads/cat-17-42.png''
       \<notin> files (snd (upload_profile_handler provider_down 1700000000000 cat_request disk_with_cat))"
  using failed_upload_unlinks_twice_in_profile_route
    [of cat_request cat_file disk_with_cat provider_down 1700000000000
        "new_Error ''connect ETIMEDOUT''"]
  by (simp add: fixture_defs)

text \<open>
  C2, where the code departs from it. After a failed remote upload the helper resolves with
  \<^verbatim>\<open>undefined\<close>, so the image route answers 200 "Image uploaded successfully" without data,
  and the profile route answers 500 with the message of its own \<^verbatim>\<open>TypeError\<close>; in neither
  answer does the provider's error detail appear.
\<close>

theorem upload_failure_answered_as_success:
  assumes "req_file req = Some f"
  shows "(cld (path f) image_options = Inl e \<longrightarrow>
          fst (upload_image_handler cld req w) =
            Inr \<lparr>status = 200,
                 json = JObj [(''message'', JStr ''Image uploaded successfully''),
                              (''data'', JUndefined)]\<rparr>)
       \<and> (cld (path f) (profile_options now) = Inl e \<and> path f \<noteq> [] \<longrightarrow>
          fst (upload_profile_handler cld now req w) =
            Inr \<lparr>status = 500,
                 json = JObj [(''error'', JStr ''Server error''),
                              (''details'', JStr (cannot_read ''undefined'' ''secure_url''))]\<rparr>)"
proof (intro conjI impI)
  assume e: "cld (path f) image_options = Inl e"
  have "fst (uploadAndCleanup cld (path f) image_options w) = Inr JUndefined"
    by (simp add: uploadAndCleanup_value e)
  then have "uploadAndCleanup cld (path f) image_options w
      = (Inr JUndefined, snd (uploadAndCleanup cld (path f) image_options w))"
    by (simp add: prod_eq_iff)
  from upload_image_handler_staged [OF assms this] show
    "fst (upload_image_handler cld req w) =
       Inr \<lparr>status = 200,
            json = JObj [(''message'', JStr ''Image uploaded successfully''), (''data'', JUndefined)]\<rparr>"
    by simp
next
  assume "cld (path f) (profile_options now) = Inl e \<and> path f \<noteq> []"
  then have e: "cld (path f) (profile_options now) = Inl e" and p: "path f \<noteq> []" by simp_all
  let ?w0 = "profile_logged req f w"
  let ?w1 = "snd (uploadAndCleanup cld (path f) (profile_options now) ?w0)"
  have "fst (uploadAndCleanup cld (path f) (profile_options now) ?w0) = Inr JUndefined"
    by (simp add: uploadAndCleanup_value e)
  then have u: "uploadAndCleanup cld (path f) (profile_options now) ?w0 = (Inr JUndefined, ?w1)"
    by (simp add: prod_eq_iff)
  obtain b w2 where d: "deleteLocalFile (path f) ?w1 = (Inr b, w2)"
    using deleteLocalFile_total by blast
  from upload_profile_handler_undefined [OF assms p u d] show
    "fst (upload_profile_handler cld now req w) =
       Inr \<lparr>status = 500,
            json = JObj [(''error'', JStr ''Server error''),
                         (''details'', JStr (cannot_read ''undefined'' ''secure_url''))]\<rparr>"
    by simp
qed

theorem upload_failure_answered_as_success_witness:
  "fst (upload_image_handler provider_down cat_request disk_with_cat)
   = Inr \<lparr>status = 200,
          json = JObj [(''message'', JStr ''Image uploaded successfully''), (''data'', JUndefined)]\<rparr>
   \<and> fst (upload_profile_handler provider_down 1700000000000 cat_request disk_with_cat)
   = Inr \<lparr>status = 500,
          json = JObj [(''error'', JStr ''Server error''),
                       (''details'', JStr (cannot_read ''undefined'' ''secure_url''))]\<rparr>"
  using upload_failure_answered_as_success [of cat_request cat_file provider_down "new_Error ''connect ETIMEDOUT''"
      disk_with_cat 1700000000000]
  by (simp add: fixture_defs)

text \<open>
  C6, where the code departs from it. After a successful remote upload, a failing local
  delete makes the helper resolve with \<^verbatim>\<open>undefined\<close>: the image route answers 200 without
  the provider's result, and the profile route answers 500.
\<close>

theorem failed_unlink_drops_descriptor:
  assumes "req_file req = Some f" and "path f \<notin> files w \<or> path f \<in> undeletable w"
  shows "(cld (path f) image_options = Inr result \<longrightarrow>
          fst (upload_image_handler cld req w) =
            Inr \<lparr>status = 200,
                 json = JObj [(''message'', JStr ''Image uploaded successfully''),
                              (''data'', JUndefined)]\<rparr>)
       \<and> (cld (path f) (profile_options now) = Inr result \<and> path f \<noteq> [] \<longrightarrow>
          fst (upload_profile_handler cld now req w) =
            Inr \<lparr>status = 500,
                 json = JObj [(''error'', JStr ''Server error''),
                              (''details'', JStr (cannot_read ''undefined'' ''secure_url''))]\<rparr>)"
proof (intro conjI impI)
  assume r: "cld (path f) image_options = Inr result"
  from upload_image_handler_staged [OF assms(1)
      uploadAndCleanup_unlink_failed [of cld "path f" image_options result w, OF r assms(2)]]
  show "fst (upload_image_handler cld req w) =
       Inr \<lparr>status = 200,
            json = JObj [(''message'', JStr ''Image uploaded successfully''), (''data'', JUndefined)]\<rparr>"
    by simp
next
  assume "cld (path f) (profile_options now) = Inr result \<and> path f \<noteq> []"
  then have r: "cld (path f) (profile_options now) = Inr result" and p: "path f \<noteq> []" by simp_all
  let ?w0 = "profile_logged req f w"
  from assms(2) have "path f \<notin> files ?w0 \<or> path f \<in> undeletable ?w0" by simp
  note u = uploadAndCleanup_unlink_failed [of cld "path f" "profile_options now" result ?w0, OF r this]
  obtain b w2 where d: "deleteLocalFile (path f) (snd (uploadAndCleanup cld (path f) (profile_options now) ?w0)) = (Inr b, w2)"
    using deleteLocalFile_total by blast
  have u': "uploadAndCleanup cld (path f) (profile_options now) ?w0
      = (Inr JUndefined, snd (uploadAndCleanup cld (path f) (profile_options now) ?w0))"
    using u by simp
  from upload_profile_handler_undefined [OF assms(1) p u' d] show
    "fst (upload_profile_handler cld now req w) =
       Inr \<lparr>status = 500,
            json = JObj [(''error'', JStr ''Server error''),
                         (''details'', JStr (cannot_read ''undefined'' ''secure_url''))]\<rparr>"
    by simp
qed

theorem failed_unlink_drops_descriptor_witness:
  "fst (upload_image_handler provider_ok cat_request locked_disk)
   = Inr \<lparr>status = 200,
          json = JObj [(''message'', JStr ''Image uploaded successfully''), (''data'', JUndefined)]\<rparr>
   \<and> fst (upload_profile_handler provider_ok 1700000000000 cat_request locked_disk)
   = Inr \<lparr>status = 500,
          json = JObj [(''error'', JStr ''Server error''),
                       (''details'', JStr (cannot_read ''undefined'' ''secure_url''))]\<rparr>"
  using failed_unlink_drops_descriptor [of cat_request cat_file locked_disk provider_ok
      cat_descriptor 1700000000000]
  by (simp add: fixture_defs)

text \<open>
  C8. A single-file request that arrives without a file under the declared field name is
  answered with status 400 and a body that holds one error text, by each of the three
  single-file routes, and nothing else happens. A request with a file is never answered
  with 400: the image route answers 200, the profile route 200 or 500, the multer.js
  route 200. A rejection by a file filter is an error, not an answer of the route, and its
  text is never one of the missing-upload texts.
\<close>

theorem missing_upload_answered_400:
  "(req_file req = None \<longrightarrow>
      upload_image_handler cld req w =
        (Inr \<lparr>status = 400, json = JObj [(''error'', JStr ''No file uploaded'')]\<rparr>, w)
    \<and> upload_profile_handler cld now req w =
        (Inr \<lparr>status = 400, json = JObj [(''error'', JStr ''no profile image uploaded'')]\<rparr>, w)
    \<and> multer_upload_single_handler req w =
        (Inr \<lparr>status = 400, json = JObj [(''message'', JStr ''No file uploaded'')]\<rparr>, w))
   \<and> (req_file req \<noteq> None \<longrightarrow>
      (\<exists>r w1. upload_image_handler cld req w = (Inr r, w1) \<and> status r = 200)
    \<and> (\<exists>r w1. upload_profile_handler cld now req w = (Inr r, w1) \<and> (status r = 200 \<or> status r = 500))
    \<and> (\<exists>r w1. multer_upload_single_handler req w = (Inr r, w1) \<and> status r = 200))
   \<and> (upload_fileFilter part = Inl e \<or> profileUpload_fileFilter part = Inl e
        \<or> multer_fileFilter part = Inl e \<longrightarrow>
      message e \<noteq> ''No file uploaded'' \<and> message e \<noteq> ''no profile image uploaded'')"
proof (intro conjI impI)
  assume "upload_fileFilter part = Inl e \<or> profileUpload_fileFilter part = Inl e
        \<or> multer_fileFilter part = Inl e"
  then have "message e = ''Only images are allowed''
      \<or> message e = ''Invalid file type. Only JPEG, PNG and GIF are allowed.''"
    by (auto simp add: upload_fileFilter_def profileUpload_fileFilter_def multer_fileFilter_def
        new_Error_def Let_def split: if_splits)
  then show "message e \<noteq> ''No file uploaded''" and "message e \<noteq> ''no profile image uploaded''"
    by auto
next
  assume "req_file req = None"
  then show "upload_image_handler cld req w =
        (Inr \<lparr>status = 400, json = JObj [(''error'', JStr ''No file uploaded'')]\<rparr>, w)"
    by (simp add: upload_image_handler_def io_defs)
next
  assume "req_file req = None"
  then show "upload_profile_handler cld now req w =
        (Inr \<lparr>status = 400, json = JObj [(''error'', JStr ''no profile image uploaded'')]\<rparr>, w)"
    by (simp add: upload_profile_handler_def io_defs)
next
  assume "req_file req = None"
  then show "multer_upload_single_handler req w =
        (Inr \<lparr>status = 400, json = JObj [(''message'', JStr ''No file uploaded'')]\<rparr>, w)"
    by (simp add: multer_upload_single_handler_def io_defs)
next
  assume "req_file req \<noteq> None"
  then obtain f where f: "req_file req = Some f" by blast
  from upload_image_handler_answer [OF f, of cld w]
  show "\<exists>r w1. upload_image_handler cld req w = (Inr r, w1) \<and> status r = 200"
    by auto
next
  assume "req_file req \<noteq> None"
  then obtain f where f: "req_file req = Some f" by blast
  obtain w1 v where "uploadAndCleanup cld (path f) (profile_options now) (profile_logged req f w) = (Inr v, w1)"
    using uploadAndCleanup_total by blast
  from upload_profile_handler_cases [OF f this]
  show "\<exists>r w1. upload_profile_handler cld now req w = (Inr r, w1) \<and> (status r = 200 \<or> status r = 500)"
    by blast
next
  assume "req_file req \<noteq> None"
  then obtain f where f: "req_file req = Some f" by blast
  from multer_upload_single_handler_staged [OF f, of w]
  show "\<exists>r w1. multer_upload_single_handler req w = (Inr r, w1) \<and> status r = 200"
    by auto
qed

theorem missing_upload_answered_400_witness:
  "upload_image_handler provider_ok no_file_request empty_disk =
        (Inr \<lparr>status = 400, json = JObj [(''error'', JStr ''No file uploaded'')]\<rparr>, empty_disk)
   \<and> upload_profile_handler provider_ok 1700000000000 no_file_request empty_disk =
        (Inr \<lparr>status = 400, json = JObj [(''error'', JStr ''no profile image uploaded'')]\<rparr>, empty_disk)
   \<and> multer_upload_single_handler no_file_request empty_disk =
        (Inr \<lparr>status = 400, json = JObj [(''message'', JStr ''No file uploaded'')]\<rparr>, empty_disk)
   \<and> (\<exists>r w1. upload_image_handler provider_ok cat_request disk_with_cat = (Inr r, w1) \<and> status r = 200)
   \<and> (\<exists>r w1. upload_profile_handler provider_ok 1700000000000 cat_request disk_with_cat = (Inr r, w1)
          \<and> (status r = 200 \<or> status r = 500))
   \<and> upload_fileFilter \<lparr>fieldname = ''image'', originalname = ''malware.exe'',
          mimetype = ''application/x-msdownload''\<rparr> = Inl (new_Error ''Only images are allowed'')
   \<and> message (new_Error ''Only images are allowed'') \<noteq> ''No file uploaded''"
proof -
  have r: "upload_fileFilter \<lparr>fieldname = ''image'', originalname = ''malware.exe'',
          mimetype = ''application/x-msdownload''\<rparr> = Inl (new_Error ''Only images are allowed'')"
    by (simp add: upload_fileFilter_def path_defs toLowerCase_def lower_char_def starts_with_def Let_def)
  from r missing_upload_answered_400 [where e = "new_Error ''Only images are allowed''"
      and part = "\<lparr>fieldname = ''image'', originalname = ''malware.exe'',
          mimetype = ''application/x-msdownload''\<rparr>"]
  have "message (new_Error ''Only images are allowed'') \<noteq> ''No file uploaded''"
    by blast
  with r
    missing_upload_answered_400 [of no_file_request provider_ok empty_disk 1700000000000]
    missing_upload_answered_400 [of cat_request provider_ok disk_with_cat 1700000000000]
  show ?thesis
    by (simp add: fixture_defs)
qed

text \<open>
  C7, as the code has it. Every string in an answer of the image route, and in a 200
  answer of the profile route, is the fixed message, a text field the caller sent, or a
  string of the provider's result: the routes of cloudinary.js put nothing of
  \<^verbatim>\<open>req.file\<close>, and so not its local path, into the body.
\<close>

theorem cloudinary_answers_hold_no_local_path:
  assumes "req_file req = Some f"
  shows "(\<forall>r. fst (upload_image_handler cld req w) = Inr r \<longrightarrow>
            js_strings (json r) \<subseteq> {''Image uploaded successfully''}
              \<union> (case cld (path f) image_options of Inl e \<Rightarrow> {} | Inr v \<Rightarrow> js_strings v))
       \<and> (\<forall>r. fst (upload_profile_handler cld now req w) = Inr r \<and> status r = 200 \<longrightarrow>
            js_strings (json r) \<subseteq> {''Profile image uploaded successfully''}
              \<union> js_strings (body_field req ''username'') \<union> js_strings (body_field req ''userId'')
              \<union> (case cld (path f) (profile_options now) of Inl e \<Rightarrow> {} | Inr v \<Rightarrow> js_strings v))"
proof (intro conjI allI impI)
  fix r assume "fst (upload_image_handler cld req w) = Inr r"
  with upload_image_handler_answer [OF assms, of cld w]
  show "js_strings (json r) \<subseteq> {''Image uploaded successfully''}
              \<union> (case cld (path f) image_options of Inl e \<Rightarrow> {} | Inr v \<Rightarrow> js_strings v)"
    by (auto split: sum.splits if_splits)
next
  fix r assume a: "fst (upload_profile_handler cld now req w) = Inr r \<and> status r = 200"
  let ?v = "case cld (path f) (profile_options now) of Inl e \<Rightarrow> JUndefined
          | Inr result \<Rightarrow> (if path f \<in> files (profile_logged req f w) \<and> path f \<notin> undeletable (profile_logged req f w)
                             then result else JUndefined)"
  obtain w1 where "uploadAndCleanup cld (path f) (profile_options now) (profile_logged req f w) = (Inr ?v, w1)"
    using uploadAndCleanup_total by blast
  from upload_profile_handler_cases [OF assms this] a
  have v: "?v \<noteq> JUndefined"
    and s: "js_strings (json r) \<subseteq> {''Profile image uploaded successfully''}
          \<union> js_strings (body_field req ''username'') \<union> js_strings (body_field req ''userId'')
          \<union> js_strings ?v"
    by auto
  from v have "js_strings ?v \<subseteq> (case cld (path f) (profile_options now) of Inl e \<Rightarrow> {} | Inr v \<Rightarrow> js_strings v)"
    by (auto split: sum.splits if_splits)
  with s show "js_strings (json r) \<subseteq> {''Profile image uploaded successfully''}
              \<union> js_strings (body_field req ''username'') \<union> js_strings (body_field req ''userId'')
              \<union> (case cld (path f) (profile_options now) of Inl e \<Rightarrow> {} | Inr v \<Rightarrow> js_strings v)"
    by blast
qed

theorem cloudinary_answers_hold_no_local_path_witness:
  "(case fst (upload_image_handler provider_ok cat_request disk_with_cat) of
      Inl e \<Rightarrow> False
    | Inr r \<Rightarrow> status r = 200 \<and> ''uploads/cat-17-42.png'' \<notin> js_strings (json r))
   \<and> (case fst (upload_profile_handler provider_ok 1700000000000 cat_request disk_with_cat) of
      Inl e \<Rightarrow> False
    | Inr r \<Rightarrow> status r = 200 \<and> ''uploads/cat-17-42.png'' \<notin> js_strings (json r))"
proof -
  obtain r w1 where i: "upload_image_handler provider_ok cat_request disk_with_cat = (Inr r, w1)"
    and "status r = 200"
    by (simp add: fixture_defs upload_image_handler_def uploadAndCleanup_def io_defs fs_unlink_def)
  obtain r' w1' where
    p: "upload_profile_handler provider_ok 1700000000000 cat_request disk_with_cat = (Inr r', w1')"
    and "status r' = 200"
    by (simp add: fixture_defs upload_profile_handler_def uploadAndCleanup_def io_defs fs_unlink_def
        body_field_def)
  note t = cloudinary_answers_hold_no_local_path
      [of cat_request cat_file provider_ok disk_with_cat 1700000000000]
  from t i \<open>status r = 200\<close> have "''uploads/cat-17-42.png'' \<notin> js_strings (json r)"
    by (auto simp: fixture_defs)
  moreover from t p \<open>status r' = 200\<close> have "''uploads/cat-17-42.png'' \<notin> js_strings (json r')"
    by (auto simp: fixture_defs body_field_def)
  ultimately show ?thesis
    using i p \<open>status r = 200\<close> \<open>status r' = 200\<close> by (simp add: fixture_defs)
qed

text \<open>
  C7 as stated fails for the single-file route of multer.js, which answers with
  \<^verbatim>\<open>path: req.file.path\<close>.
\<close>

theorem multer_answer_returns_local_path_counterexample:
  "(case fst (multer_upload_single_handler
        \<lparr>req_file = Some \<lparr>fieldname = ''myfile'', originalname = ''cat.png'', mimetype = ''image/png'',
           destination = ''./uploads'', filename = ''cat-1700000000000.png'',
           path = ''uploads/cat-1700000000000.png'', size_f = 2048\<rparr>, req_body = []\<rparr>
        \<lparr>files = {''uploads/cat-1700000000000.png''}, undeletable = {}, unlink_calls = [], console = []\<rparr>) of
      Inl e \<Rightarrow> False
    | Inr r \<Rightarrow> status r = 200 \<and> ''uploads/cat-1700000000000.png'' \<in> js_strings (json r))"
  by (simp add: multer_upload_single_handler_def io_defs)

text \<open>
  C3, as the code has it. The file filter of cloudinary.js accepts every file whose
  lower-cased extension is one of .jpeg, .jpg, .png, .gif and whose declared MIME type is
  one of image/jpeg, image/jpg, image/png, image/gif. It rejects every file in whose
  lower-cased extension, or in whose MIME type, none of the words jpeg, jpg, png, gif
  occurs, and whatever it rejects it rejects with the one reason "Only images are
  allowed", whichever attribute failed. The file filter of multer.js accepts a file
  exactly when its declared MIME type is one of the four image types, whatever its name,
  and rejects every other file with one reason.
\<close>

theorem fileFilter_decisions:
  "(toLowerCase (path_extname (originalname f)) \<in> {''.jpeg'', ''.jpg'', ''.png'', ''.gif''}
      \<and> mimetype f \<in> {''image/jpeg'', ''image/jpg'', ''image/png'', ''image/gif''} \<longrightarrow>
      upload_fileFilter f = Inr True)
   \<and> ((\<forall>a \<in> {''jpeg'', ''jpg'', ''png'', ''gif''}. \<forall>u v.
           toLowerCase (path_extname (originalname f)) \<noteq> u @ a @ v)
        \<or> (\<forall>a \<in> {''jpeg'', ''jpg'', ''png'', ''gif''}. \<forall>u v. mimetype f \<noteq> u @ a @ v) \<longrightarrow>
      upload_fileFilter f = Inl (new_Error ''Only images are allowed''))
   \<and> (upload_fileFilter f \<noteq> Inr True \<longrightarrow>
        upload_fileFilter f = Inl (new_Error ''Only images are allowed''))
   \<and> (multer_fileFilter f = Inr True \<longleftrightarrow>
        mimetype f \<in> {''image/jpeg'', ''image/jpg'', ''image/png'', ''image/gif''})
   \<and> (multer_fileFilter f \<noteq> Inr True \<longrightarrow>
        multer_fileFilter f = Inl (new_Error ''Invalid file type. Only JPEG, PNG and GIF are allowed.''))"
proof (intro conjI impI)
  assume "toLowerCase (path_extname (originalname f)) \<in> {''.jpeg'', ''.jpg'', ''.png'', ''.gif''}
      \<and> mimetype f \<in> {''image/jpeg'', ''image/jpg'', ''image/png'', ''image/gif''}"
  then have "regex_test [''jpeg'', ''jpg'', ''png'', ''gif''] (toLowerCase (path_extname (originalname f)))"
    and "regex_test [''jpeg'', ''jpg'', ''png'', ''gif''] (mimetype f)"
    using image_words_accepted by blast+
  then show "upload_fileFilter f = Inr True"
    by (simp add: upload_fileFilter_def Let_def del: regex_test.simps)
next
  assume "(\<forall>a \<in> {''jpeg'', ''jpg'', ''png'', ''gif''}. \<forall>u v.
           toLowerCase (path_extname (originalname f)) \<noteq> u @ a @ v)
        \<or> (\<forall>a \<in> {''jpeg'', ''jpg'', ''png'', ''gif''}. \<forall>u v. mimetype f \<noteq> u @ a @ v)"
  then have "\<not> regex_test [''jpeg'', ''jpg'', ''png'', ''gif''] (toLowerCase (path_extname (originalname f)))
      \<or> \<not> regex_test [''jpeg'', ''jpg'', ''png'', ''gif''] (mimetype f)"
    using image_pattern_unmatched by blast
  then show "upload_fileFilter f = Inl (new_Error ''Only images are allowed'')"
    by (auto simp add: upload_fileFilter_def Let_def simp del: regex_test.simps)
next
  assume "upload_fileFilter f \<noteq> Inr True"
  then show "upload_fileFilter f = Inl (new_Error ''Only images are allowed'')"
    by (simp add: upload_fileFilter_def Let_def del: regex_test.simps split: if_splits)
next
  show "multer_fileFilter f = Inr True \<longleftrightarrow>
        mimetype f \<in> {''image/jpeg'', ''image/jpg'', ''image/png'', ''image/gif''}"
    by (simp add: multer_fileFilter_def Let_def)
next
  assume "multer_fileFilter f \<noteq> Inr True"
  then show "multer_fileFilter f = Inl (new_Error ''Invalid file type. Only JPEG, PNG and GIF are allowed.'')"
    by (simp add: multer_fileFilter_def Let_def split: if_splits)
qed

theorem fileFilter_decisions_witness:
  "upload_fileFilter \<lparr>fieldname = ''image'', originalname = ''photo.JPG'', mimetype = ''image/jpeg''\<rparr> = Inr True
   \<and> upload_fileFilter \<lparr>fieldname = ''image'', originalname = ''malware.exe'', mimetype = ''application/x-msdownload''\<rparr>
       = Inl (new_Error ''Only images are allowed'')
   \<and> multer_fileFilter \<lparr>fieldname = ''myfile'', originalname = ''photo.JPG'', mimetype = ''image/jpeg''\<rparr> = Inr True
   \<and> multer_fileFilter \<lparr>fieldname = ''myfile'', originalname = ''notes.txt'', mimetype = ''text/plain''\<rparr>
       = Inl (new_Error ''Invalid file type. Only JPEG, PNG and GIF are allowed.'')"
proof (intro conjI)
  let ?f = "\<lparr>fieldname = ''image'', originalname = ''photo.JPG'', mimetype = ''image/jpeg''\<rparr>"
  have "toLowerCase (path_extname (originalname ?f)) \<in> {''.jpeg'', ''.jpg'', ''.png'', ''.gif''}
      \<and> mimetype ?f \<in> {''image/jpeg'', ''image/jpg'', ''image/png'', ''image/gif''}"
    by (simp add: path_defs toLowerCase_def lower_char_def)
  with fileFilter_decisions [of ?f] show "upload_fileFilter ?f = Inr True"
    by blast
next
  let ?g = "\<lparr>fieldname = ''image'', originalname = ''malware.exe'', mimetype = ''application/x-msdownload''\<rparr>"
  have "toLowerCase (path_extname (originalname ?g)) = ''.exe''"
    by (simp add: path_defs toLowerCase_def lower_char_def)
  moreover have "\<not> regex_test [''jpeg'', ''jpg'', ''png'', ''gif''] ''.exe''"
    by (simp add: starts_with_def)
  ultimately have "\<forall>a \<in> {''jpeg'', ''jpg'', ''png'', ''gif''}. \<forall>u v.
      toLowerCase (path_extname (originalname ?g)) \<noteq> u @ a @ v"
    unfolding regex_test_iff by simp
  with fileFilter_decisions [of ?g]
  show "upload_fileFilter ?g = Inl (new_Error ''Only images are allowed'')"
    by blast
next
  let ?f = "\<lparr>fieldname = ''myfile'', originalname = ''photo.JPG'', mimetype = ''image/jpeg''\<rparr>"
  from fileFilter_decisions [of ?f] show "multer_fileFilter ?f = Inr True"
    by simp
next
  let ?g = "\<lparr>fieldname = ''myfile'', originalname = ''notes.txt'', mimetype = ''text/plain''\<rparr>"
  have "multer_fileFilter ?g \<noteq> Inr True"
    by (simp add: multer_fileFilter_def)
  with fileFilter_decisions [of ?g]
  show "multer_fileFilter ?g = Inl (new_Error ''Invalid file type. Only JPEG, PNG and GIF are allowed.'')"
    by blast
qed

text \<open>
  C3 as stated fails twice: the reason of cloudinary.js is the same text when the
  extension fails, when the MIME type fails and when both do, so it names no attribute;
  and multer.js accepts \<^verbatim>\<open>malware.exe\<close> declared as \<^verbatim>\<open>image/png\<close>.
\<close>

theorem one_reason_and_unchecked_extension_counterexample:
  "upload_fileFilter \<lparr>fieldname = ''image'', originalname = ''malware.exe'', mimetype = ''application/x-msdownload''\<rparr>
     = Inl (new_Error ''Only images are allowed'')
   \<and> upload_fileFilter \<lparr>fieldname = ''image'', originalname = ''photo.png'', mimetype = ''text/plain''\<rparr>
     = Inl (new_Error ''Only images are allowed'')
   \<and> upload_fileFilter \<lparr>fieldname = ''image'', originalname = ''malware.exe'', mimetype = ''image/png''\<rparr>
     = Inl (new_Error ''Only images are allowed'')
   \<and> multer_fileFilter \<lparr>fieldname = ''myfile'', originalname = ''malware.exe'', mimetype = ''image/png''\<rparr>
     = Inr True"
  by (simp add: upload_fileFilter_def multer_fileFilter_def path_defs toLowerCase_def lower_char_def
      starts_with_def Let_def)

text \<open>
  C4, as the code has it. A staged name of cloudinary.js is the base name, a dash, the
  time stamp, a dash, the random integer, and the extension; two uploads of the same
  original file name get the same staged name exactly when their time stamps and their
  random integers both agree. A staged name of multer.js has no random part: base name,
  dash, time stamp, extension; two uploads of the same original name collide exactly when
  their time stamps agree.
\<close>

theorem staged_names_collide_only_on_equal_suffix:
  "storage_filename now rnd f =
     path_basename (originalname f) (path_extname (originalname f)) @ ''-'' @ string_of_nat now
       @ ''-'' @ string_of_nat rnd @ path_extname (originalname f)
   \<and> (originalname f1 = originalname f2 \<longrightarrow>
        (storage_filename n1 r1 f1 = storage_filename n2 r2 f2 \<longleftrightarrow> n1 = n2 \<and> r1 = r2))
   \<and> multer_storage_filename now f =
     path_basename (originalname f) (path_extname (originalname f)) @ ''-'' @ string_of_nat now
       @ path_extname (originalname f)
   \<and> (originalname f1 = originalname f2 \<longrightarrow>
        (multer_storage_filename n1 f1 = multer_storage_filename n2 f2 \<longleftrightarrow> n1 = n2))"
proof (intro conjI impI)
  show "storage_filename now rnd f =
     path_basename (originalname f) (path_extname (originalname f)) @ ''-'' @ string_of_nat now
       @ ''-'' @ string_of_nat rnd @ path_extname (originalname f)"
    by (simp add: storage_filename_def Let_def)
next
  assume "originalname f1 = originalname f2"
  then show "storage_filename n1 r1 f1 = storage_filename n2 r2 f2 \<longleftrightarrow> n1 = n2 \<and> r1 = r2"
    using dashed_pair_inj [of n1 r1 "path_extname (originalname f2)" n2 r2]
    by (simp add: storage_filename_def Let_def)
next
  show "multer_storage_filename now f =
     path_basename (originalname f) (path_extname (originalname f)) @ ''-'' @ string_of_nat now
       @ path_extname (originalname f)"
    by (simp add: multer_storage_filename_def Let_def)
next
  assume "originalname f1 = originalname f2"
  then show "multer_storage_filename n1 f1 = multer_storage_filename n2 f2 \<longleftrightarrow> n1 = n2"
    by (auto simp add: multer_storage_filename_def Let_def dest: string_of_nat_inj)
qed

theorem staged_names_collide_only_on_equal_suffix_witness:
  "storage_filename 1700000000000 42 \<lparr>fieldname = ''image'', originalname = ''cat.png'', mimetype = ''image/png''\<rparr>
     \<noteq> storage_filename 1700000000000 43 \<lparr>fieldname = ''image'', originalname = ''cat.png'', mimetype = ''image/gif''\<rparr>
   \<and> multer_storage_filename 1700000000000 \<lparr>fieldname = ''myfile'', originalname = ''cat.png'', mimetype = ''image/png''\<rparr>
     \<noteq> multer_storage_filename 1700000000001 \<lparr>fieldname = ''myfile'', originalname = ''cat.png'', mimetype = ''image/gif''\<rparr>"
  using staged_names_collide_only_on_equal_suffix [of 0 0
      "\<lparr>fieldname = ''image'', originalname = ''cat.png'', mimetype = ''image/png''\<rparr>"
      "\<lparr>fieldname = ''image'', originalname = ''cat.png'', mimetype = ''image/png''\<rparr>"
      "\<lparr>fieldname = ''image'', originalname = ''cat.png'', mimetype = ''image/gif''\<rparr>"
      1700000000000 42 1700000000000 43, THEN conjunct2, THEN conjunct1]
    staged_names_collide_only_on_equal_suffix [of 0 0
      "\<lparr>fieldname = ''myfile'', originalname = ''cat.png'', mimetype = ''image/png''\<rparr>"
      "\<lparr>fieldname = ''myfile'', originalname = ''cat.png'', mimetype = ''image/png''\<rparr>"
      "\<lparr>fieldname = ''myfile'', originalname = ''cat.png'', mimetype = ''image/gif''\<rparr>"
      1700000000000 42 1700000000001 43, THEN conjunct2, THEN conjunct2, THEN conjunct2]
  by simp

text \<open>
  C4 as stated fails: two uploads of \<^verbatim>\<open>cat.png\<close> that read the same millisecond and draw the
  same integer are given the same staged name, and in multer.js, where the name has no
  random part, the same millisecond is enough.
\<close>

theorem same_instant_same_name_counterexample:
  "storage_filename 1700000000000 42 \<lparr>fieldname = ''image'', originalname = ''cat.png'', mimetype = ''image/png''\<rparr>
     = ''cat-1700000000000-42.png''
   \<and> storage_filename 1700000000000 42 \<lparr>fieldname = ''image'', originalname = ''cat.png'', mimetype = ''image/gif''\<rparr>
     = ''cat-1700000000000-42.png''
   \<and> multer_storage_filename 1700000000000 \<lparr>fieldname = ''myfile'', originalname = ''cat.png'', mimetype = ''image/png''\<rparr>
     = ''cat-1700000000000.png''
   \<and> multer_storage_filename 1700000000000 \<lparr>fieldname = ''myfile'', originalname = ''cat.png'', mimetype = ''image/gif''\<rparr>
     = ''cat-1700000000000.png''"
  by (simp add: storage_filename_def multer_storage_filename_def path_defs string_of_nat.simps
      digit_char_def Let_def)

text \<open>
  C5, on the model of the middleware. A file that the file filter does not accept is not
  staged: the disk is as it was, and a rejection with an error leaves the whole world
  untouched and ends the request with that error.
\<close>

theorem rejected_file_is_never_staged:
  "(fileFilter opts part = Inl err \<longrightarrow>
      multer_single opts now rnd (Some (part, bytes)) text_fields w = (Inl err, w))
   \<and> (fileFilter opts part \<noteq> Inr True \<longrightarrow>
      files (snd (multer_single opts now rnd (Some (part, bytes)) text_fields w)) = files w)"
  by (auto simp add: multer_single_def io_defs split: sum.splits bool.splits)

theorem rejected_file_is_never_staged_witness:
  "multer_single upload 1700000000000 42
      (Some (\<lparr>fieldname = ''image'', originalname = ''malware.exe'',
               mimetype = ''application/x-msdownload''\<rparr>, 2048)) []
      \<lparr>files = {''uploads/cat-17-42.png''}, undeletable = {}, unlink_calls = [], console = []\<rparr>
    = (Inl (new_Error ''Only images are allowed''),
       \<lparr>files = {''uploads/cat-17-42.png''}, undeletable = {}, unlink_calls = [], console = []\<rparr>)"
proof -
  have "fileFilter upload \<lparr>fieldname = ''image'', originalname = ''malware.exe'',
               mimetype = ''application/x-msdownload''\<rparr> = Inl (new_Error ''Only images are allowed'')"
    by (simp add: upload_def upload_fileFilter_def path_defs toLowerCase_def lower_char_def
        starts_with_def Let_def)
  with rejected_file_is_never_staged [of upload
      "\<lparr>fieldname = ''image'', originalname = ''malware.exe'', mimetype = ''application/x-msdownload''\<rparr>"
      "new_Error ''Only images are allowed''" 1700000000000 42 2048 "[]"
      "\<lparr>files = {''uploads/cat-17-42.png''}, undeletable = {}, unlink_calls = [], console = []\<rparr>"]
  show ?thesis by blast
qed

text \<open>
  C9, on the model of the middleware. A file of exactly \<^verbatim>\<open>limits.fileSize\<close> bytes that
  passed the file filter is staged, with that size; one of one byte more is refused with
  \<^verbatim>\<open>LIMIT_FILE_SIZE\<close>, nothing is written, and no file filter of the programs gives that
  reason.
\<close>

theorem size_ceiling_is_inclusive:
  assumes "fileFilter opts part = Inr True"
  shows "(\<exists>f w1. multer_single opts now rnd (Some (part, limits_fileSize opts)) text_fields w
            = (Inr \<lparr>req_file = Some f, req_body = text_fields\<rparr>, w1)
          \<and> size_f f = limits_fileSize opts \<and> path f \<in> files w1)
       \<and> multer_single opts now rnd (Some (part, limits_fileSize opts + 1)) text_fields w
            = (Inl LIMIT_FILE_SIZE, w)
       \<and> upload_fileFilter part' \<noteq> Inl LIMIT_FILE_SIZE
       \<and> profileUpload_fileFilter part' \<noteq> Inl LIMIT_FILE_SIZE
       \<and> multer_fileFilter part' \<noteq> Inl LIMIT_FILE_SIZE"
proof (intro conjI)
  show "\<exists>f w1. multer_single opts now rnd (Some (part, limits_fileSize opts)) text_fields w
            = (Inr \<lparr>req_file = Some f, req_body = text_fields\<rparr>, w1)
          \<and> size_f f = limits_fileSize opts \<and> path f \<in> files w1"
    using assms by (simp add: multer_single_def io_defs Let_def)
next
  show "multer_single opts now rnd (Some (part, limits_fileSize opts + 1)) text_fields w
            = (Inl LIMIT_FILE_SIZE, w)"
    using assms by (simp add: multer_single_def io_defs)
next
  show "upload_fileFilter part' \<noteq> Inl LIMIT_FILE_SIZE"
    by (simp add: upload_fileFilter_def LIMIT_FILE_SIZE_def new_Error_def Let_def del: regex_test.simps)
next
  show "profileUpload_fileFilter part' \<noteq> Inl LIMIT_FILE_SIZE"
    by (simp add: profileUpload_fileFilter_def LIMIT_FILE_SIZE_def new_Error_def Let_def del: regex_test.simps)
next
  show "multer_fileFilter part' \<noteq> Inl LIMIT_FILE_SIZE"
    by (simp add: multer_fileFilter_def LIMIT_FILE_SIZE_def new_Error_def Let_def)
qed

theorem size_ceiling_is_inclusive_witness:
  "limits_fileSize upload = 5242880
   \<and> (\<exists>f w1. multer_single upload 1700000000000 42
          (Some (\<lparr>fieldname = ''image'', originalname = ''photo.JPG'', mimetype = ''image/jpeg''\<rparr>,
                 5242880)) []
          \<lparr>files = {}, undeletable = {}, unlink_calls = [], console = []\<rparr>
        = (Inr \<lparr>req_file = Some f, req_body = []\<rparr>, w1)
        \<and> size_f f = 5242880 \<and> path f \<in> files w1)
   \<and> multer_single upload 1700000000000 42
          (Some (\<lparr>fieldname = ''image'', originalname = ''photo.JPG'', mimetype = ''image/jpeg''\<rparr>,
                 5242881)) []
          \<lparr>files = {}, undeletable = {}, unlink_calls = [], console = []\<rparr>
        = (Inl LIMIT_FILE_SIZE, \<lparr>files = {}, undeletable = {}, unlink_calls = [], console = []\<rparr>)"
proof -
  have l: "limits_fileSize upload = 5242880"
    by (simp add: upload_def)
  have a: "fileFilter upload \<lparr>fieldname = ''image'', originalname = ''photo.JPG'', mimetype = ''image/jpeg''\<rparr>
      = Inr True"
    by (simp add: upload_def upload_fileFilter_def path_defs toLowerCase_def lower_char_def
        starts_with_def Let_def)
  from size_ceiling_is_inclusive [OF a, of 1700000000000 42 "[]"
      "\<lparr>files = {}, undeletable = {}, unlink_calls = [], console = []\<rparr>"] l
  show ?thesis by simp
qed

end
